theory Spec2Isabelle
  imports Complex_Main "HOL-Library.Product_Lexorder"
begin

section \<open>The MGNREGA dashboard: tiered retrieval over the SQLite cache\<close>

text \<open>
  The development embeds the data-access layer of \<^verbatim>\<open>utils.py\<close> and the function
  \<^verbatim>\<open>get_district_data\<close> of \<^verbatim>\<open>app.py\<close>, together with the year-over-year helper of
  \<^verbatim>\<open>app.py\<close> and \<^verbatim>\<open>get_state_average\<close> of \<^verbatim>\<open>utils.py\<close>.

  Conventions of the embedding.
  \<^item> The table \<^verbatim>\<open>district_metrics\<close> is the list of its rows in insertion order; the database
    file is the only mutable state and is passed in and returned.
  \<^item> \<^verbatim>\<open>datetime.now()\<close> is an input: the reading of the wall clock in microseconds, taken
    once per call. The text \<^verbatim>\<open>'%Y-%m-%d %H:%M:%S'\<close> that the table stores has a resolution of
    one second; it is modelled by the number of whole seconds it denotes, so that the textual
    \<^verbatim>\<open>MAX(updated_at)\<close> of SQLite is the numeric maximum.
  \<^item> Records are typed: a dictionary read with \<^verbatim>\<open>record['year']\<close>, ... is a record that has
    these fields (and possibly more), so that no \<^verbatim>\<open>KeyError\<close> arises; integers are Python's,
    taken within the range that SQLite stores. The columns \<^verbatim>\<open>REAL\<close> are exact rationals; the
    rounding of binary floating point is outside the model.
  \<^item> A function that can raise returns a sum, \<open>Inl\<close> the exception. The exceptions modelled
    are those of the remote call, which \<^verbatim>\<open>fetch_from_api\<close> catches, and the one of an offline
    file that \<^verbatim>\<open>json.load\<close> cannot parse, which nothing catches.
  \<^item> The decorator \<^verbatim>\<open>@st.cache_data\<close> is a memo of the web framework placed in front of
    \<^verbatim>\<open>get_district_data\<close>; the model is the decorated function's body, which is what runs
    whenever the memo does not answer.
\<close>

subsection \<open>Time\<close>

type_synonym clock = int
type_synonym stamp = int

definition strftime :: "clock \<Rightarrow> stamp" where
  "strftime now = now div 1000000"

definition strptime :: "stamp \<Rightarrow> clock" where
  "strptime ts = ts * 1000000"

subsection \<open>Records\<close>

text \<open>
  \<open>metric\<close> has the six keys that \<^verbatim>\<open>save_to_cache\<close> reads from a record, \<open>offline_record\<close>
  adds the two keys that \<^verbatim>\<open>load_offline_data\<close> filters on, and \<open>db_row\<close> adds the column
  \<^verbatim>\<open>updated_at\<close>: the nine columns selected by \<^verbatim>\<open>get_from_cache\<close>.
\<close>

record metric =
  year :: int
  month :: int
  households :: int
  person_days :: int
  expenditure :: rat
  avg_wage :: rat

record offline_record = metric +
  state :: string
  district :: string

record db_row = offline_record +
  updated_at :: stamp

type_synonym district_metrics = "db_row list"

subsection \<open>The local store (\<^verbatim>\<open>utils.py\<close>)\<close>

definition for_district :: "string \<Rightarrow> string \<Rightarrow> db_row \<Rightarrow> bool" where
  "for_district st d r \<longleftrightarrow> state r = st \<and> district r = d"

text \<open>\<^verbatim>\<open>SELECT MAX(updated_at) ... WHERE state = ? AND district = ?\<close>; \<open>None\<close> when no row matches.\<close>

definition get_cache_timestamp :: "string \<Rightarrow> string \<Rightarrow> district_metrics \<Rightarrow> stamp option" where
  "get_cache_timestamp st d tbl =
     (case map updated_at (filter (for_district st d) tbl) of
        [] \<Rightarrow> None
      | t # ts \<Rightarrow> Some (fold max ts t))"

definition is_cache_valid :: "clock \<Rightarrow> string \<Rightarrow> string \<Rightarrow> int \<Rightarrow> district_metrics \<Rightarrow> bool" where
  "is_cache_valid now st d ttl_seconds tbl =
     (case get_cache_timestamp st d tbl of
        None \<Rightarrow> False
      | Some timestamp \<Rightarrow> now - strptime timestamp < ttl_seconds * 1000000)"

text \<open>
  \<^verbatim>\<open>INSERT OR REPLACE\<close> under \<^verbatim>\<open>UNIQUE(state, district, year, month)\<close>: the rows that conflict
  with the new one are deleted, then the new row is inserted.
\<close>

definition same_key :: "db_row \<Rightarrow> db_row \<Rightarrow> bool" where
  "same_key a b \<longleftrightarrow>
     state a = state b \<and> district a = district b \<and> year a = year b \<and> month a = month b"

definition insert_or_replace :: "db_row \<Rightarrow> district_metrics \<Rightarrow> district_metrics" where
  "insert_or_replace r tbl = filter (\<lambda>x. \<not> same_key x r) tbl @ [r]"

definition new_row :: "clock \<Rightarrow> string \<Rightarrow> string \<Rightarrow> 'a metric_scheme \<Rightarrow> db_row" where
  "new_row now st d record =
     \<lparr> year = year record, month = month record, households = households record,
       person_days = person_days record, expenditure = expenditure record,
       avg_wage = avg_wage record, state = st, district = d, updated_at = strftime now \<rparr>"

fun save_to_cache ::
  "clock \<Rightarrow> string \<Rightarrow> string \<Rightarrow> 'a metric_scheme list \<Rightarrow> district_metrics \<Rightarrow> district_metrics"
where
  "save_to_cache now st d [] tbl = tbl"
| "save_to_cache now st d (record # data_list) tbl =
     save_to_cache now st d data_list (insert_or_replace (new_row now st d record) tbl)"

text \<open>\<^verbatim>\<open>... WHERE state = ? AND district = ? ORDER BY year DESC, month DESC\<close>.\<close>

definition get_from_cache :: "string \<Rightarrow> string \<Rightarrow> district_metrics \<Rightarrow> db_row list" where
  "get_from_cache st d tbl =
     sort_key (\<lambda>r. (- year r, - month r)) (filter (for_district st d) tbl)"

subsection \<open>The remote source and the offline dataset (\<^verbatim>\<open>utils.py\<close>)\<close>

datatype py_exception =
  ConnectionError | Timeout | HTTPError | JSONDecodeError | OtherException string

text \<open>
  \<^verbatim>\<open>fetch_from_api\<close> is \<^verbatim>\<open>try: <body> except Exception as e: ...; return None\<close>. The outcome
  of the body is a parameter of \<open>fetch_from_api_via\<close>: the exception it raises, or the value it
  returns. In the repository the body is the placeholder \<^verbatim>\<open>return None\<close>, which gives
  \<open>fetch_from_api\<close>.
\<close>

definition fetch_from_api_via :: "py_exception + metric list option \<Rightarrow> metric list option" where
  "fetch_from_api_via body = (case body of Inr data \<Rightarrow> data | Inl e \<Rightarrow> None)"

definition fetch_from_api :: "metric list option" where
  "fetch_from_api = fetch_from_api_via (Inr None)"

text \<open>
  The file \<^verbatim>\<open>offline_data.json\<close>: absent, not parseable (\<^verbatim>\<open>json.load\<close> raises, and nothing
  catches it), or an array of records.
\<close>

datatype offline_file = Missing | Corrupt | Content "offline_record list"

text \<open>\<^verbatim>\<open>if district:\<close> holds for a non-empty string only.\<close>

definition load_offline_data ::
  "offline_file \<Rightarrow> string \<Rightarrow> string option \<Rightarrow> py_exception + offline_record list"
where
  "load_offline_data file st d =
     (case file of
        Missing \<Rightarrow> Inr []
      | Corrupt \<Rightarrow> Inl JSONDecodeError
      | Content data \<Rightarrow>
          (case d of
             Some (c # cs) \<Rightarrow>
               Inr (filter (\<lambda>record. state record = st \<and> district record = c # cs) data)
           | _ \<Rightarrow> Inr (filter (\<lambda>record. state record = st) data)))"

subsection \<open>The retrieval policy (\<^verbatim>\<open>get_district_data\<close>, \<^verbatim>\<open>app.py\<close>)\<close>

datatype data_source = Cache | Api | Offline

text \<open>The returned \<^verbatim>\<open>df\<close>: rows read from the table, the remote payload, or the offline records.\<close>

datatype frame =
  CacheFrame "db_row list" | ApiFrame "metric list" | OfflineFrame "offline_record list"

text \<open>\<^verbatim>\<open>df.empty\<close>.\<close>

fun df_empty :: "frame \<Rightarrow> bool" where
  "df_empty (CacheFrame rows) \<longleftrightarrow> rows = []"
| "df_empty (ApiFrame rows) \<longleftrightarrow> rows = []"
| "df_empty (OfflineFrame rows) \<longleftrightarrow> rows = []"

text \<open>
  The state: the table, and a counter of the calls of \<^verbatim>\<open>fetch_from_api\<close> (bookkeeping that
  makes the remote attempt visible in the result).
\<close>

record world =
  table :: district_metrics
  api_calls :: nat

type_synonym retrieval = "frame \<times> data_source \<times> stamp option"

definition get_district_data_via ::
  "py_exception + metric list option \<Rightarrow> offline_file \<Rightarrow> clock \<Rightarrow> string \<Rightarrow> string \<Rightarrow> world
     \<Rightarrow> py_exception + retrieval \<times> world"
where
  "get_district_data_via body file now st d w =
     (if is_cache_valid now st d 86400 (table w) then
        Inr ((CacheFrame (get_from_cache st d (table w)), Cache,
              get_cache_timestamp st d (table w)), w)
      else
        let api_data = fetch_from_api_via body;
            w1 = w\<lparr>api_calls := Suc (api_calls w)\<rparr>
        in case api_data of
             Some (r # rs) \<Rightarrow>
               Inr ((ApiFrame (r # rs), Api, Some (strftime now)),
                    w1\<lparr>table := save_to_cache now st d (r # rs) (table w1)\<rparr>)
           | _ \<Rightarrow>
               (case get_from_cache st d (table w1) of
                  [] \<Rightarrow>
                    (case load_offline_data file st (Some d) of
                       Inl e \<Rightarrow> Inl e
                     | Inr [] \<Rightarrow>
                         Inr ((OfflineFrame [], Offline, get_cache_timestamp st d (table w1)), w1)
                     | Inr (r # rs) \<Rightarrow>
                         let w2 = w1\<lparr>table := save_to_cache now st d (r # rs) (table w1)\<rparr>
                         in Inr ((OfflineFrame (r # rs), Offline,
                                  get_cache_timestamp st d (table w2)), w2))
                | row # rows \<Rightarrow>
                    Inr ((CacheFrame (row # rows), Cache,
                          get_cache_timestamp st d (table w1)), w1)))"

definition get_district_data ::
  "offline_file \<Rightarrow> clock \<Rightarrow> string \<Rightarrow> string \<Rightarrow> world \<Rightarrow> py_exception + retrieval \<times> world"
where
  "get_district_data = get_district_data_via (Inr None)"

subsection \<open>Derived metrics\<close>

text \<open>
  \<^verbatim>\<open>get_state_average\<close> (\<^verbatim>\<open>utils.py\<close>). \<^verbatim>\<open>AVG\<close> over no row is \<^verbatim>\<open>NULL\<close>; the test
  \<^verbatim>\<open>if result and result[0]\<close> fails for \<^verbatim>\<open>NULL\<close> and for an average of \<^verbatim>\<open>0.0\<close>. \<^verbatim>\<open>int\<close>
  truncates towards zero and \<^verbatim>\<open>round(x, 2)\<close> rounds to two decimals, ties to even.
\<close>

definition mean :: "rat list \<Rightarrow> rat" where
  "mean xs = sum_list xs / of_nat (length xs)"

definition py_int :: "rat \<Rightarrow> int" where
  "py_int q = (if 0 \<le> q then \<lfloor>q\<rfloor> else \<lceil>q\<rceil>)"

definition round_half_even :: "rat \<Rightarrow> int" where
  "round_half_even q =
     (let f = \<lfloor>q\<rfloor>; frac = q - of_int f
      in if frac < 1 / 2 then f
         else if 1 / 2 < frac then f + 1
         else if even f then f else f + 1)"

definition py_round2 :: "rat \<Rightarrow> rat" where
  "py_round2 q = of_int (round_half_even (q * 100)) / 100"

record averages =
  avg_households :: int
  avg_person_days :: int
  avg_expenditure :: rat
  avg_avg_wage :: rat

definition for_state_month :: "string \<Rightarrow> int \<Rightarrow> int \<Rightarrow> db_row \<Rightarrow> bool" where
  "for_state_month st y m r \<longleftrightarrow> state r = st \<and> year r = y \<and> month r = m"

text \<open>The four aggregates \<^verbatim>\<open>AVG(households)\<close>, ... over the selected rows.\<close>

definition mean_households :: "db_row list \<Rightarrow> rat" where
  "mean_households rows = mean (map (\<lambda>r. of_int (households r)) rows)"

definition mean_person_days :: "db_row list \<Rightarrow> rat" where
  "mean_person_days rows = mean (map (\<lambda>r. of_int (person_days r)) rows)"

definition mean_expenditure :: "db_row list \<Rightarrow> rat" where
  "mean_expenditure rows = mean (map expenditure rows)"

definition mean_avg_wage :: "db_row list \<Rightarrow> rat" where
  "mean_avg_wage rows = mean (map avg_wage rows)"

definition get_state_average :: "string \<Rightarrow> int \<Rightarrow> int \<Rightarrow> district_metrics \<Rightarrow> averages option" where
  "get_state_average st y m tbl =
     (let rows = filter (for_state_month st y m) tbl
      in if rows = [] then None
         else if mean_households rows = 0 then None
         else Some \<lparr> avg_households = py_int (mean_households rows),
                     avg_person_days = py_int (mean_person_days rows),
                     avg_expenditure = py_round2 (mean_expenditure rows),
                     avg_avg_wage = py_round2 (mean_avg_wage rows) \<rparr>)"

text \<open>
  The year-over-year block of \<^verbatim>\<open>app.py\<close>, over the rows of the displayed \<^verbatim>\<open>df\<close>: the years in
  descending order, one entry per month of May to October and year (the first matching row),
  the totals of the two latest years, and the guarded percentage.
\<close>

definition get_month_name :: "int \<Rightarrow> string" where
  "get_month_name month_num =
     (if month_num = 1 then ''January'' else if month_num = 2 then ''February''
      else if month_num = 3 then ''March'' else if month_num = 4 then ''April''
      else if month_num = 5 then ''May'' else if month_num = 6 then ''June''
      else if month_num = 7 then ''July'' else if month_num = 8 then ''August''
      else if month_num = 9 then ''September'' else if month_num = 10 then ''October''
      else if month_num = 11 then ''November'' else if month_num = 12 then ''December''
      else [])"

record yoy_entry =
  Month :: string
  Year :: int
  Person_Days :: int

definition all_years :: "'a metric_scheme list \<Rightarrow> int list" where
  "all_years df = rev (sort (remdups (map year df)))"

definition yoy_data :: "'a metric_scheme list \<Rightarrow> yoy_entry list" where
  "yoy_data df =
     concat (map (\<lambda>month_num.
       concat (map (\<lambda>y.
         (case filter (\<lambda>r. year r = y \<and> month r = month_num) df of
            [] \<Rightarrow> []
          | record # _ \<Rightarrow>
              [\<lparr> Month = get_month_name month_num, Year = y,
                 Person_Days = person_days record \<rparr>]))
         (all_years df)))
       [5, 6, 7, 8, 9, 10])"

definition year_total :: "int \<Rightarrow> yoy_entry list \<Rightarrow> int" where
  "year_total y yoy_df = sum_list (map Person_Days (filter (\<lambda>e. Year e = y) yoy_df))"

definition yoy_change :: "int \<Rightarrow> int \<Rightarrow> rat option" where
  "yoy_change latest_total prev_total =
     (if prev_total > 0
      then Some ((of_int (latest_total - prev_total) / of_int prev_total) * 100)
      else None)"

text \<open>
  \<open>yoy_totals\<close> is \<open>None\<close> where the block does not reach the totals (fewer than two years, or
  no entry), \<open>yoy_growth\<close> is the percentage where it is computed.
\<close>

definition yoy_totals :: "'a metric_scheme list \<Rightarrow> (int \<times> int) option" where
  "yoy_totals df =
     (case all_years df of
        latest_year # prev_year # _ \<Rightarrow>
          (if yoy_data df = [] then None
           else Some (year_total latest_year (yoy_data df), year_total prev_year (yoy_data df)))
      | _ \<Rightarrow> None)"

definition yoy_growth :: "'a metric_scheme list \<Rightarrow> rat option" where
  "yoy_growth df =
     (case yoy_totals df of
        None \<Rightarrow> None
      | Some (latest_total, prev_total) \<Rightarrow> yoy_change latest_total prev_total)"

subsection \<open>Notions of the specification\<close>

text \<open>The most recent \<^verbatim>\<open>updated_at\<close> among rows that were read.\<close>

definition latest_update :: "db_row list \<Rightarrow> stamp" where
  "latest_update rows = Max (updated_at ` set rows)"

text \<open>The remote source fails or returns nothing.\<close>

definition no_remote_data :: "py_exception + metric list option \<Rightarrow> bool" where
  "no_remote_data body \<longleftrightarrow>
     (case body of Inl e \<Rightarrow> True | Inr None \<Rightarrow> True | Inr (Some data) \<Rightarrow> data = [])"


text \<open>
  Reading one key (state, district, year, month): the rows of that year and month among those
  that \<^verbatim>\<open>get_from_cache\<close> returns for the state and district.
\<close>

definition read_key :: "string \<Rightarrow> string \<Rightarrow> int \<Rightarrow> int \<Rightarrow> district_metrics \<Rightarrow> db_row list" where
  "read_key st d y m tbl = filter (\<lambda>r. year r = y \<and> month r = m) (get_from_cache st d tbl)"

text \<open>The constraint \<^verbatim>\<open>UNIQUE(state, district, year, month)\<close> as a property of a table.\<close>

definition key_of :: "db_row \<Rightarrow> string \<times> string \<times> int \<times> int" where
  "key_of r = (state r, district r, year r, month r)"

definition unique_keys :: "district_metrics \<Rightarrow> bool" where
  "unique_keys tbl \<longleftrightarrow> distinct (map key_of tbl)"

subsection \<open>Sample data\<close>

definition patna_may :: db_row where
  "patna_may = \<lparr> year = 2024, month = 5, households = 120, person_days = 3400,
       expenditure = 51000 / 4, avg_wage = 221, state = ''Bihar'', district = ''Patna'',
       updated_at = 1000 \<rparr>"

definition patna_store :: world where
  "patna_store = \<lparr> table = [patna_may], api_calls = 0 \<rparr>"

definition patna_june :: metric where
  "patna_june = \<lparr> year = 2024, month = 6, households = 130, person_days = 3600,
       expenditure = 13000, avg_wage = 225 \<rparr>"

definition patna_may_revised :: metric where
  "patna_may_revised = \<lparr> year = 2024, month = 5, households = 125, person_days = 3500,
       expenditure = 12900, avg_wage = 221 \<rparr>"

definition gaya_april :: offline_record where
  "gaya_april = \<lparr> year = 2023, month = 4, households = 80, person_days = 1900,
       expenditure = 7000, avg_wage = 210, state = ''Bihar'', district = ''Gaya'' \<rparr>"

definition patna_april :: offline_record where
  "patna_april = \<lparr> year = 2023, month = 4, households = 90, person_days = 2100,
       expenditure = 8000, avg_wage = 212, state = ''Bihar'', district = ''Patna'' \<rparr>"


definition patna_may_2023 :: db_row where
  "patna_may_2023 = \<lparr> year = 2023, month = 5, households = 0, person_days = 0,
       expenditure = 0, avg_wage = 0, state = ''Bihar'', district = ''Patna'',
       updated_at = 1000 \<rparr>"

definition empty_store :: world where
  "empty_store = \<lparr> table = [], api_calls = 0 \<rparr>"

section \<open>Properties of the local store\<close>

subsection \<open>Reading\<close>

lemma fold_max_Max: "fold max ts (t::int) = Max (set (t # ts))"
  by (rule Max.set_eq_fold [symmetric])

lemma get_cache_timestamp_eq:
  "get_cache_timestamp st d tbl =
     (if filter (for_district st d) tbl = [] then None
      else Some (Max (updated_at ` set (filter (for_district st d) tbl))))"
proof (cases "filter (for_district st d) tbl")
  case Nil
  then show ?thesis by (simp add: get_cache_timestamp_def)
next
  case (Cons a rows)
  have "fold max (map updated_at rows) (updated_at a) = Max (set (map updated_at (a # rows)))"
    using fold_max_Max [of "map updated_at rows" "updated_at a"] by simp
  with Cons show ?thesis by (simp add: get_cache_timestamp_def)
qed

lemma set_get_from_cache: "set (get_from_cache st d tbl) = set (filter (for_district st d) tbl)"
  by (simp add: get_from_cache_def)

lemma get_from_cache_Nil: "get_from_cache st d tbl = [] \<longleftrightarrow> filter (for_district st d) tbl = []"
  by (metis set_get_from_cache set_empty)

lemma in_get_from_cache:
  "x \<in> set (get_from_cache st d tbl) \<longleftrightarrow> x \<in> set tbl \<and> state x = st \<and> district x = d"
  by (auto simp: set_get_from_cache for_district_def)

lemma get_cache_timestamp_read:
  "get_cache_timestamp st d tbl =
     (if get_from_cache st d tbl = [] then None
      else Some (latest_update (get_from_cache st d tbl)))"
  by (simp add: get_cache_timestamp_eq get_from_cache_Nil latest_update_def set_get_from_cache
           del: set_filter)

lemma is_cache_valid_read:
  "is_cache_valid now st d ttl tbl \<longleftrightarrow>
     get_from_cache st d tbl \<noteq> [] \<and>
     now - strptime (latest_update (get_from_cache st d tbl)) < ttl * 1000000"
  by (simp add: is_cache_valid_def get_cache_timestamp_read)

lemma strptime_mono: "a \<le> b \<Longrightarrow> strptime a \<le> strptime b"
  by (simp add: strptime_def)

subsection \<open>Writing\<close>

lemma set_insert_or_replace:
  "set (insert_or_replace r tbl) = {x \<in> set tbl. \<not> same_key x r} \<union> {r}"
  by (auto simp: insert_or_replace_def)

lemma new_row_sel [simp]:
  "year (new_row now st d r) = year r" "month (new_row now st d r) = month r"
  "households (new_row now st d r) = households r"
  "person_days (new_row now st d r) = person_days r"
  "expenditure (new_row now st d r) = expenditure r"
  "avg_wage (new_row now st d r) = avg_wage r"
  "state (new_row now st d r) = st" "district (new_row now st d r) = d"
  "updated_at (new_row now st d r) = strftime now"
  by (simp_all add: new_row_def)

lemma same_key_new_row:
  "same_key (new_row now st d a) (new_row now st d b) \<longleftrightarrow> year a = year b \<and> month a = month b"
  by (auto simp: same_key_def)

lemma same_key_key_of: "same_key a b \<longleftrightarrow> key_of a = key_of b"
  by (auto simp: same_key_def key_of_def)

text \<open>
  A row of the table after \<^verbatim>\<open>save_to_cache\<close> was written by it, or was there before and has
  the key of no record written.
\<close>

lemma save_to_cache_rows_strong:
  "x \<in> set (save_to_cache now st d rs tbl) \<Longrightarrow>
     (x \<in> set tbl \<and> (\<forall>r \<in> set rs. \<not> same_key x (new_row now st d r))) \<or>
     x \<in> new_row now st d ` set rs"
proof (induction rs arbitrary: tbl)
  case Nil
  then show ?case by simp
next
  case (Cons r rs)
  from Cons.prems
  have "x \<in> set (save_to_cache now st d rs (insert_or_replace (new_row now st d r) tbl))"
    by simp
  from Cons.IH [OF this] show ?case
    by (auto simp: set_insert_or_replace)
qed


text \<open>
  A row stays unless a record with its key is written.
\<close>

lemma save_to_cache_kept:
  "x \<in> set tbl \<Longrightarrow>
     x \<in> set (save_to_cache now st d rs tbl) \<or> (\<exists>r \<in> set rs. same_key x (new_row now st d r))"
proof (induction rs arbitrary: tbl)
  case Nil
  then show ?case by simp
next
  case (Cons r rs)
  show ?case
  proof (cases "same_key x (new_row now st d r)")
    case True
    then show ?thesis by auto
  next
    case False
    with Cons.prems have "x \<in> set (insert_or_replace (new_row now st d r) tbl)"
      by (simp add: set_insert_or_replace)
    from Cons.IH [OF this] show ?thesis by auto
  qed
qed

text \<open>
  Every key that occurs in the list written has a row afterwards, written from that list.
\<close>

lemma save_to_cache_key:
  "\<exists>b \<in> set rs. year b = y \<and> month b = m \<Longrightarrow>
     \<exists>r' \<in> set rs. year r' = y \<and> month r' = m \<and>
        new_row now st d r' \<in> set (save_to_cache now st d rs tbl)"
proof (induction rs arbitrary: tbl)
  case Nil
  then show ?case by simp
next
  case (Cons a rs)
  let ?tbl = "insert_or_replace (new_row now st d a) tbl"
  show ?case
  proof (cases "\<exists>b \<in> set rs. year b = y \<and> month b = m")
    case True
    from Cons.IH [OF True, of ?tbl] show ?thesis by auto
  next
    case False
    with Cons.prems have ra: "year a = y" "month a = m" by auto
    have "new_row now st d a \<in> set ?tbl" by (simp add: set_insert_or_replace)
    from save_to_cache_kept [OF this, of now st d rs] False ra
    have "new_row now st d a \<in> set (save_to_cache now st d rs ?tbl)"
      by (auto simp: same_key_new_row)
    then show ?thesis by (auto simp: ra)
  qed
qed

lemma save_to_cache_covers:
  "r \<in> set rs \<Longrightarrow>
     \<exists>r' \<in> set rs. year r' = year r \<and> month r' = month r \<and>
        new_row now st d r' \<in> set (save_to_cache now st d rs tbl)"
  by (rule save_to_cache_key) auto

lemma save_to_cache_distinct:
  "distinct (map (\<lambda>r. (year r, month r)) rs) \<Longrightarrow> r \<in> set rs \<Longrightarrow>
     new_row now st d r \<in> set (save_to_cache now st d rs tbl)"
proof (induction rs arbitrary: tbl)
  case Nil
  then show ?case by simp
next
  case (Cons a rs)
  let ?tbl = "insert_or_replace (new_row now st d a) tbl"
  show ?case
  proof (cases "r \<in> set rs")
    case True
    with Cons show ?thesis by simp
  next
    case False
    with Cons.prems have ra: "r = a" by auto
    have "new_row now st d a \<in> set ?tbl" by (simp add: set_insert_or_replace)
    from save_to_cache_kept [OF this, of now st d rs] Cons.prems(1)
    have "new_row now st d a \<in> set (save_to_cache now st d rs ?tbl)"
      by (force simp: same_key_new_row)
    then show ?thesis by (simp add: ra)
  qed
qed

text \<open>
  The rows of the other districts are untouched.
\<close>

lemma save_to_cache_other_rows:
  "filter (\<lambda>x. \<not> for_district st d x) (save_to_cache now st d rs tbl) =
   filter (\<lambda>x. \<not> for_district st d x) tbl"
proof (induction rs arbitrary: tbl)
  case Nil
  then show ?case by simp
next
  case (Cons a rs)
  have "filter (\<lambda>x. \<not> for_district st d x) (insert_or_replace (new_row now st d a) tbl) =
        filter (\<lambda>x. \<not> for_district st d x) tbl"
    by (induction tbl) (auto simp: insert_or_replace_def for_district_def same_key_def)
  with Cons.IH show ?case by simp
qed

lemma save_to_cache_nonempty:
  fixes rs :: "'a metric_scheme list"
  assumes "rs \<noteq> []"
  shows "filter (for_district st d) (save_to_cache now st d rs tbl) \<noteq> []"
proof -
  from assms obtain r where "r \<in> set rs" by (cases rs) auto
  from save_to_cache_covers [OF this, of now st d tbl]
  obtain r' :: "'a metric_scheme"
    where "new_row now st d r' \<in> set (save_to_cache now st d rs tbl)" by blast
  moreover have "for_district st d (new_row now st d r')" by (simp add: for_district_def)
  ultimately show ?thesis by (auto simp: filter_empty_conv)
qed

text \<open>
  The timestamp of the key after a write.
\<close>

lemma timestamp_after_save:
  fixes rs :: "'a metric_scheme list"
  assumes "rs \<noteq> []"
  shows "\<exists>ts. get_cache_timestamp st d (save_to_cache now st d rs tbl) = Some ts \<and>
           strftime now \<le> ts"
proof -
  let ?rows = "filter (for_district st d) (save_to_cache now st d rs tbl)"
  from assms obtain r where "r \<in> set rs" by (cases rs) auto
  from save_to_cache_covers [OF this, of now st d tbl]
  obtain r' :: "'a metric_scheme"
    where "new_row now st d r' \<in> set (save_to_cache now st d rs tbl)" by blast
  moreover have "for_district st d (new_row now st d r')" by (simp add: for_district_def)
  ultimately have "new_row now st d r' \<in> set ?rows" by simp
  then have "updated_at (new_row now st d r') \<in> updated_at ` set ?rows"
    by (rule imageI)
  then have "strftime now \<in> updated_at ` set ?rows" by simp
  then have "strftime now \<le> Max (updated_at ` set ?rows)"
    by (intro Max_ge) auto
  moreover have "?rows \<noteq> []" using assms by (rule save_to_cache_nonempty)
  then have "get_cache_timestamp st d (save_to_cache now st d rs tbl) =
      Some (Max (updated_at ` set ?rows))"
    by (simp only: get_cache_timestamp_eq if_False)
  ultimately show ?thesis by blast
qed


subsection \<open>One key\<close>

lemma read_key_filter:
  "read_key st d y m tbl =
     sort_key (\<lambda>r. (- year r, - month r))
       (filter (\<lambda>r. for_district st d r \<and> year r = y \<and> month r = m) tbl)"
  by (simp only: read_key_def get_from_cache_def filter_sort filter_filter)

lemma read_key_insert_or_replace:
  "read_key st d (year r) (month r) (insert_or_replace (new_row now st d r) tbl) =
     [new_row now st d r]"
proof -
  have "filter (\<lambda>x. for_district st d x \<and> year x = year r \<and> month x = month r)
          (filter (\<lambda>x. \<not> same_key x (new_row now st d r)) tbl) = []"
    by (simp add: filter_empty_conv for_district_def same_key_def)
  then show ?thesis
    by (simp add: read_key_filter insert_or_replace_def for_district_def)
qed

lemma unique_keys_insert_or_replace:
  assumes "unique_keys tbl"
  shows "unique_keys (insert_or_replace r tbl)"
proof -
  have "distinct (map key_of (filter (\<lambda>x. \<not> same_key x r) tbl))"
    using assms unfolding unique_keys_def by (rule distinct_map_filter)
  moreover have "key_of r \<notin> key_of ` set (filter (\<lambda>x. \<not> same_key x r) tbl)"
    by (auto simp: same_key_key_of)
  ultimately show ?thesis
    by (simp add: unique_keys_def insert_or_replace_def)
qed

lemma unique_keys_save_to_cache:
  "unique_keys tbl \<Longrightarrow> unique_keys (save_to_cache now st d rs tbl)"
  by (induction rs arbitrary: tbl) (simp_all add: unique_keys_insert_or_replace)

lemma distinct_const_map:
  assumes "distinct (map f xs)" and "\<And>x. x \<in> set xs \<Longrightarrow> f x = c"
  shows "length xs \<le> 1"
proof (cases xs)
  case Nil
  then show ?thesis by simp
next
  case (Cons a as)
  have "as = []"
  proof (cases as)
    case Nil
    then show ?thesis .
  next
    case (Cons b bs)
    with \<open>xs = a # as\<close> have xs: "xs = a # b # bs" by simp
    from assms(2) [of a] assms(2) [of b] xs have "f a = f b" by simp
    moreover from assms(1) xs have "f a \<noteq> f b" by simp
    ultimately show ?thesis by simp
  qed
  with Cons show ?thesis by simp
qed

lemma unique_keys_read_key:
  assumes "unique_keys tbl"
  shows "length (read_key st d y m tbl) \<le> 1"
proof -
  let ?P = "\<lambda>r. for_district st d r \<and> year r = y \<and> month r = m"
  have d: "distinct (map key_of (filter ?P tbl))"
    using assms unfolding unique_keys_def by (rule distinct_map_filter)
  have same: "key_of a = (st, d, y, m)" if "a \<in> set (filter ?P tbl)" for a
    using that by (simp add: key_of_def for_district_def)
  from d same have "length (filter ?P tbl) \<le> 1"
    by (rule distinct_const_map)
  then show ?thesis by (simp only: read_key_filter length_sort)
qed

text \<open>
  Claim C5. For every key (state, district, year, month): after a record is written for the key,
  reading the key returns one row, which has the six values of that record (with the state,
  the district and the time of the write). After a second write for the same key, whatever
  values it carries, reading the key returns only the row of the second write. A table whose
  keys are unique keeps unique keys under \<^verbatim>\<open>save_to_cache\<close>, and then reading any key returns
  at most one row.
\<close>

theorem upsert_round_trip:
  "read_key st d (year r) (month r) (save_to_cache now st d [r] tbl) = [new_row now st d r] \<and>
   metric.truncate (new_row now st d r) = metric.truncate r \<and>
   (year r2 = year r \<and> month r2 = month r \<longrightarrow>
      read_key st d (year r) (month r)
        (save_to_cache now2 st d [r2] (save_to_cache now st d [r] tbl)) = [new_row now2 st d r2]) \<and>
   (unique_keys tbl \<longrightarrow>
      unique_keys (save_to_cache now st d rs tbl) \<and>
      length (read_key st d y m (save_to_cache now st d rs tbl)) \<le> 1)"
proof -
  have one: "read_key st d (year r) (month r) (save_to_cache now st d [r] tbl) =
      [new_row now st d r]"
    by (simp only: save_to_cache.simps read_key_insert_or_replace)
  have same: "metric.truncate (new_row now st d r) = metric.truncate r"
    by (simp add: metric.truncate_def new_row_def)
  have two: "read_key st d (year r) (month r)
        (save_to_cache now2 st d [r2] (save_to_cache now st d [r] tbl)) = [new_row now2 st d r2]"
    if "year r2 = year r \<and> month r2 = month r"
  proof -
    have "read_key st d (year r2) (month r2)
        (save_to_cache now2 st d [r2] (save_to_cache now st d [r] tbl)) = [new_row now2 st d r2]"
      by (simp only: save_to_cache.simps read_key_insert_or_replace)
    with that show ?thesis by (simp only:)
  qed
  have inv: "unique_keys (save_to_cache now st d rs tbl) \<and>
      length (read_key st d y m (save_to_cache now st d rs tbl)) \<le> 1" if "unique_keys tbl"
  proof -
    from that have "unique_keys (save_to_cache now st d rs tbl)"
      by (rule unique_keys_save_to_cache)
    then show ?thesis using unique_keys_read_key by blast
  qed
  from one same two inv show ?thesis by blast
qed

theorem upsert_round_trip_witness:
  "year (patna_june\<lparr>households := 131\<rparr>) = year patna_june \<and>
   month (patna_june\<lparr>households := 131\<rparr>) = month patna_june \<and>
   unique_keys [patna_may] \<and>
   read_key ''Bihar'' ''Patna'' 2024 6
     (save_to_cache 7000000 ''Bihar'' ''Patna'' [patna_june\<lparr>households := 131\<rparr>]
        (save_to_cache 5000000 ''Bihar'' ''Patna'' [patna_june] [patna_may])) =
     [new_row 7000000 ''Bihar'' ''Patna'' (patna_june\<lparr>households := 131\<rparr>)] \<and>
   unique_keys (save_to_cache 5000000 ''Bihar'' ''Patna'' [patna_may_revised, patna_june] [patna_may]) \<and>
   length (read_key ''Bihar'' ''Patna'' 2024 5
     (save_to_cache 5000000 ''Bihar'' ''Patna'' [patna_may_revised, patna_june] [patna_may])) \<le> 1"
proof -
  have h1: "year (patna_june\<lparr>households := 131\<rparr>) = year patna_june \<and>
      month (patna_june\<lparr>households := 131\<rparr>) = month patna_june"
    by simp
  have h2: "unique_keys [patna_may]"
    by (simp add: unique_keys_def)
  have ym: "year patna_june = 2024" "month patna_june = 6"
    by (simp_all add: patna_june_def)
  from upsert_round_trip [of "''Bihar''" "''Patna''" patna_june 5000000 "[patna_may]"
      "patna_june\<lparr>households := 131\<rparr>" 7000000] h1
  have two: "read_key ''Bihar'' ''Patna'' 2024 6
     (save_to_cache 7000000 ''Bihar'' ''Patna'' [patna_june\<lparr>households := 131\<rparr>]
        (save_to_cache 5000000 ''Bihar'' ''Patna'' [patna_june] [patna_may])) =
     [new_row 7000000 ''Bihar'' ''Patna'' (patna_june\<lparr>households := 131\<rparr>)]"
    by (simp only: ym) blast
  from upsert_round_trip [of "''Bihar''" "''Patna''" patna_june 5000000 "[patna_may]"
      patna_june 5000000 "[patna_may_revised, patna_june]" 2024 5] h2
  have inv: "unique_keys
       (save_to_cache 5000000 ''Bihar'' ''Patna'' [patna_may_revised, patna_june] [patna_may]) \<and>
     length (read_key ''Bihar'' ''Patna'' 2024 5
       (save_to_cache 5000000 ''Bihar'' ''Patna'' [patna_may_revised, patna_june] [patna_may])) \<le> 1"
    by blast
  from h1 h2 two inv show ?thesis by (simp only: simp_thms)
qed

text \<open>
  Claim C10, as amended. Every row that \<^verbatim>\<open>save_to_cache\<close> writes gets as \<^verbatim>\<open>updated_at\<close> the
  clock reading of the write, cut to the whole second by the format \<^verbatim>\<open>'%Y-%m-%d %H:%M:%S'\<close>,
  whatever further fields (a timestamp among them) the source record carries: the type of the
  records written is any extension of \<open>metric\<close>. Every record written has such a row. After a
  write of a non-empty list, \<^verbatim>\<open>is_cache_valid\<close> holds at every clock reading that is less than
  24 hours after that stored timestamp.
\<close>

theorem saved_rows_carry_write_time:
  fixes data :: "'a metric_scheme list"
  shows
  "(\<forall>x \<in> set (save_to_cache now st d data tbl).
      (\<exists>r \<in> set data. same_key x (new_row now st d r)) \<longrightarrow> updated_at x = strftime now) \<and>
   (\<forall>r \<in> set data. \<exists>x \<in> set (save_to_cache now st d data tbl).
      same_key x (new_row now st d r) \<and> updated_at x = strftime now) \<and>
   (data \<noteq> [] \<longrightarrow>
      (\<forall>t. t - strptime (strftime now) < 86400 * 1000000 \<longrightarrow>
           is_cache_valid t st d 86400 (save_to_cache now st d data tbl)))"
proof -
  have written: "updated_at x = strftime now"
    if "x \<in> set (save_to_cache now st d data tbl)"
      and "\<exists>r \<in> set data. same_key x (new_row now st d r)" for x
  proof -
    from save_to_cache_rows_strong [OF that(1)] that(2)
    have "x \<in> new_row now st d ` set data" by blast
    then obtain r :: "'a metric_scheme" where "x = new_row now st d r" by (rule imageE)
    then show ?thesis by simp
  qed
  have present: "\<exists>x \<in> set (save_to_cache now st d data tbl).
      same_key x (new_row now st d r) \<and> updated_at x = strftime now"
    if "r \<in> set data" for r
  proof -
    from save_to_cache_covers [OF that, of now st d tbl]
    obtain r' :: "'a metric_scheme" where r': "year r' = year r" "month r' = month r"
      "new_row now st d r' \<in> set (save_to_cache now st d data tbl)" by blast
    from r'(1,2) have "same_key (new_row now st d r') (new_row now st d r)"
      by (simp add: same_key_new_row)
    moreover have "updated_at (new_row now st d r') = strftime now" by simp
    ultimately show ?thesis using r'(3) by blast
  qed
  have fresh: "is_cache_valid t st d 86400 (save_to_cache now st d data tbl)"
    if "data \<noteq> []" and "t - strptime (strftime now) < 86400 * 1000000" for t
  proof -
    from timestamp_after_save [OF that(1), of st d now tbl]
    obtain ts where ts: "get_cache_timestamp st d (save_to_cache now st d data tbl) = Some ts"
      "strftime now \<le> ts" by blast
    from ts(2) have "strptime (strftime now) \<le> strptime ts" by (rule strptime_mono)
    with that(2) have "t - strptime ts < 86400 * 1000000" by linarith
    with ts(1) show ?thesis by (simp add: is_cache_valid_def)
  qed
  from written present fresh show ?thesis by blast
qed

theorem saved_rows_carry_write_time_witness:
  "new_row 5000000000900000 ''Bihar'' ''Patna'' patna_may
     \<in> set (save_to_cache 5000000000900000 ''Bihar'' ''Patna'' [patna_may] [patna_may]) \<and>
   patna_may \<in> set [patna_may] \<and>
   same_key (new_row 5000000000900000 ''Bihar'' ''Patna'' patna_may)
            (new_row 5000000000900000 ''Bihar'' ''Patna'' patna_may) \<and>
   [patna_may] \<noteq> [] \<and>
   5000003600000000 - strptime (strftime 5000000000900000) < 86400 * 1000000 \<and>
   updated_at patna_may = 1000 \<and>
   updated_at (new_row 5000000000900000 ''Bihar'' ''Patna'' patna_may) = 5000000000 \<and>
   is_cache_valid 5000003600000000 ''Bihar'' ''Patna'' 86400
     (save_to_cache 5000000000900000 ''Bihar'' ''Patna'' [patna_may] [patna_may])"
proof -
  let ?x = "new_row 5000000000900000 ''Bihar'' ''Patna'' patna_may"
  let ?tbl = "save_to_cache 5000000000900000 ''Bihar'' ''Patna'' [patna_may] [patna_may]"
  have h1: "?x \<in> set ?tbl"
    by (simp add: insert_or_replace_def)
  have h2: "patna_may \<in> set [patna_may]"
    by simp
  have h3: "same_key ?x ?x"
    by (simp add: same_key_def)
  have h4: "[patna_may] \<noteq> []"
    by simp
  have stamp: "strftime 5000000000900000 = 5000000000"
    by (simp add: strftime_def)
  have h5: "5000003600000000 - strptime (strftime 5000000000900000) < 86400 * 1000000"
    by (simp add: stamp strptime_def)
  have old: "updated_at patna_may = 1000"
    by (simp add: patna_may_def)
  note inst = saved_rows_carry_write_time
    [of 5000000000900000 "''Bihar''" "''Patna''" "[patna_may]" "[patna_may]"]
  from inst h1 h2 h3 have "updated_at ?x = strftime 5000000000900000"
    by blast
  then have new: "updated_at ?x = 5000000000"
    by (simp only: stamp)
  from inst h4 h5 have valid: "is_cache_valid 5000003600000000 ''Bihar'' ''Patna'' 86400 ?tbl"
    by blast
  from h1 h2 h3 h4 h5 old new valid show ?thesis by (simp only: simp_thms)
qed

text \<open>
  The stored timestamp can be up to one second older than the write, so the 24 hours are not
  always full: a row written at 0.9 s is no longer valid at 86400.0 s, which is 86399.1 s after
  the write.
\<close>

theorem fresh_for_24_hours_counterexample:
  "(900000::int) \<le> 86400000000 \<and> 86400000000 - 900000 < 86400 * (1000000::int) \<and>
   save_to_cache 900000 ''Bihar'' ''Patna'' [patna_april] [] =
     [new_row 900000 ''Bihar'' ''Patna'' patna_april] \<and>
   updated_at (new_row 900000 ''Bihar'' ''Patna'' patna_april) = 0 \<and>
   \<not> is_cache_valid 86400000000 ''Bihar'' ''Patna'' 86400
       (save_to_cache 900000 ''Bihar'' ''Patna'' [patna_april] [])"
  by code_simp

section \<open>The retrieval policy\<close>

lemma no_remote_data_fetch:
  "no_remote_data body \<longleftrightarrow> fetch_from_api_via body = None \<or> fetch_from_api_via body = Some []"
  by (auto simp: no_remote_data_def fetch_from_api_via_def split: sum.splits option.splits)


lemma policy_without_remote_data:
  assumes "\<not> is_cache_valid now st d 86400 (table w)" and "no_remote_data body"
  shows "get_district_data_via body file now st d w =
     (case get_from_cache st d (table w) of
        [] \<Rightarrow>
          (case load_offline_data file st (Some d) of
             Inl e \<Rightarrow> Inl e
           | Inr [] \<Rightarrow>
               Inr ((OfflineFrame [], Offline, get_cache_timestamp st d (table w)),
                    w\<lparr>api_calls := Suc (api_calls w)\<rparr>)
           | Inr (r # rs) \<Rightarrow>
               Inr ((OfflineFrame (r # rs), Offline,
                     get_cache_timestamp st d (save_to_cache now st d (r # rs) (table w))),
                    w\<lparr>api_calls := Suc (api_calls w),
                      table := save_to_cache now st d (r # rs) (table w)\<rparr>))
      | row # rows \<Rightarrow>
          Inr ((CacheFrame (row # rows), Cache, get_cache_timestamp st d (table w)),
               w\<lparr>api_calls := Suc (api_calls w)\<rparr>))"
  using assms
  by (auto simp: get_district_data_via_def no_remote_data_fetch Let_def
           split: list.splits sum.splits option.splits)

lemma policy_with_remote_data:
  assumes "\<not> is_cache_valid now st d 86400 (table w)" and "data \<noteq> []"
  shows "get_district_data_via (Inr (Some data)) file now st d w =
           Inr ((ApiFrame data, Api, Some (strftime now)),
                w\<lparr>api_calls := Suc (api_calls w),
                  table := save_to_cache now st d data (table w)\<rparr>)"
  using assms
  by (cases data) (simp_all add: get_district_data_via_def fetch_from_api_via_def)


lemma patna_rows: "get_from_cache ''Bihar'' ''Patna'' (table patna_store) = [patna_may]"
  by code_simp

lemma patna_latest: "latest_update [patna_may] = 1000"
  by code_simp



text \<open>
  Claim C2. For every key whose rows are absent or stale: if the remote source returns a
  non-empty payload, \<^verbatim>\<open>get_district_data\<close> returns the payload with the source \<^verbatim>\<open>"api"\<close> and
  the clock reading, in the format of the table, as timestamp, and the table becomes the one
  that \<^verbatim>\<open>save_to_cache\<close> gives for the payload. In that table every (year, month) of the payload
  has a row written from the payload, and every record of the payload has its row when no two
  records share a (year, month).
\<close>

theorem remote_payload_is_saved:
  assumes "get_from_cache st d (table w) = [] \<or>
           \<not> now - strptime (latest_update (get_from_cache st d (table w))) < 86400 * 1000000"
    and "data \<noteq> []"
  shows "get_district_data_via (Inr (Some data)) file now st d w =
           Inr ((ApiFrame data, Api, Some (strftime now)),
                w\<lparr>api_calls := Suc (api_calls w),
                  table := save_to_cache now st d data (table w)\<rparr>) \<and>
         (\<forall>r \<in> set data. \<exists>r' \<in> set data. year r' = year r \<and> month r' = month r \<and>
            new_row now st d r' \<in> set (get_from_cache st d (save_to_cache now st d data (table w)))) \<and>
         (distinct (map (\<lambda>r. (year r, month r)) data) \<longrightarrow>
            (\<forall>r \<in> set data.
               new_row now st d r \<in> set (get_from_cache st d (save_to_cache now st d data (table w)))))"
proof -
  from assms(1) have stale: "\<not> is_cache_valid now st d 86400 (table w)"
    by (auto simp: is_cache_valid_read)
  have covers: "\<exists>r' \<in> set data. year r' = year r \<and> month r' = month r \<and>
            new_row now st d r' \<in> set (get_from_cache st d (save_to_cache now st d data (table w)))"
    if "r \<in> set data" for r
    using save_to_cache_covers [OF that, of now st d "table w"]
    by (auto simp: in_get_from_cache)
  have exact: "new_row now st d r \<in> set (get_from_cache st d (save_to_cache now st d data (table w)))"
    if "distinct (map (\<lambda>r. (year r, month r)) data)" "r \<in> set data" for r
    using save_to_cache_distinct [OF that, of now st d "table w"]
    by (simp add: in_get_from_cache)
  from policy_with_remote_data [OF stale assms(2), of "file"] covers exact
  show ?thesis by blast
qed

theorem remote_payload_is_saved_witness:
  "(get_from_cache ''Bihar'' ''Patna'' (table patna_store) = [] \<or>
    \<not> 91000000000 - strptime (latest_update (get_from_cache ''Bihar'' ''Patna'' (table patna_store)))
       < 86400 * 1000000) \<and>
   [patna_may_revised, patna_june] \<noteq> [] \<and>
   distinct (map (\<lambda>r. (year r, month r)) [patna_may_revised, patna_june]) \<and>
   get_district_data_via (Inr (Some [patna_may_revised, patna_june])) Missing 91000000000
       ''Bihar'' ''Patna'' patna_store =
     Inr ((ApiFrame [patna_may_revised, patna_june], Api, Some 91000),
          \<lparr> table = [new_row 91000000000 ''Bihar'' ''Patna'' patna_may_revised,
                      new_row 91000000000 ''Bihar'' ''Patna'' patna_june],
            api_calls = 1 \<rparr>) \<and>
   new_row 91000000000 ''Bihar'' ''Patna'' patna_may_revised
     \<in> set (get_from_cache ''Bihar'' ''Patna''
              (save_to_cache 91000000000 ''Bihar'' ''Patna'' [patna_may_revised, patna_june]
                 (table patna_store))) \<and>
   new_row 91000000000 ''Bihar'' ''Patna'' patna_june
     \<in> set (get_from_cache ''Bihar'' ''Patna''
              (save_to_cache 91000000000 ''Bihar'' ''Patna'' [patna_may_revised, patna_june]
                 (table patna_store)))"
proof -
  have h1: "get_from_cache ''Bihar'' ''Patna'' (table patna_store) = [] \<or>
    \<not> 91000000000 - strptime (latest_update (get_from_cache ''Bihar'' ''Patna'' (table patna_store)))
       < 86400 * 1000000"
    by (simp add: patna_rows patna_latest strptime_def)
  have h2: "[patna_may_revised, patna_june] \<noteq> []"
    by simp
  have h3: "distinct (map (\<lambda>r. (year r, month r)) [patna_may_revised, patna_june])"
    by (simp add: patna_may_revised_def patna_june_def)
  have saved: "save_to_cache 91000000000 ''Bihar'' ''Patna'' [patna_may_revised, patna_june]
      (table patna_store) =
      [new_row 91000000000 ''Bihar'' ''Patna'' patna_may_revised,
       new_row 91000000000 ''Bihar'' ''Patna'' patna_june]"
    by code_simp
  have stamp: "strftime 91000000000 = 91000"
    by (simp add: strftime_def)
  have w1: "patna_store\<lparr>api_calls := Suc (api_calls patna_store),
      table := [new_row 91000000000 ''Bihar'' ''Patna'' patna_may_revised,
                new_row 91000000000 ''Bihar'' ''Patna'' patna_june]\<rparr> =
      \<lparr> table = [new_row 91000000000 ''Bihar'' ''Patna'' patna_may_revised,
                  new_row 91000000000 ''Bihar'' ''Patna'' patna_june],
        api_calls = 1 \<rparr>"
    by (simp add: patna_store_def)
  from remote_payload_is_saved [OF h1 h2, of Missing] h1 h2 h3
  show ?thesis by (simp add: saved stamp w1 del: save_to_cache.simps)
qed

text \<open>
  Claim C7. For every key whose rows are stale: if the remote source fails or returns nothing
  and the table holds rows for the key, \<^verbatim>\<open>get_district_data\<close> returns these rows with the
  source \<^verbatim>\<open>"cache"\<close> and the most recent \<^verbatim>\<open>updated_at\<close> among them as timestamp.
\<close>

theorem stale_cache_is_returned:
  assumes "get_from_cache st d (table w) \<noteq> []"
    and "\<not> now - strptime (latest_update (get_from_cache st d (table w))) < 86400 * 1000000"
    and "no_remote_data body"
  shows "get_district_data_via body file now st d w =
           Inr ((CacheFrame (get_from_cache st d (table w)), Cache,
                 Some (latest_update (get_from_cache st d (table w)))),
                w\<lparr>api_calls := Suc (api_calls w)\<rparr>)"
proof -
  from assms(2) have stale: "\<not> is_cache_valid now st d 86400 (table w)"
    by (simp add: is_cache_valid_read)
  from assms(1) obtain row rows where "get_from_cache st d (table w) = row # rows"
    by (cases "get_from_cache st d (table w)") auto
  with policy_without_remote_data [OF stale assms(3), of "file"] assms(1)
  show ?thesis by (simp add: get_cache_timestamp_read)
qed

theorem stale_cache_is_returned_witness:
  "get_from_cache ''Bihar'' ''Patna'' (table patna_store) \<noteq> [] \<and>
   \<not> 91000000000 - strptime (latest_update (get_from_cache ''Bihar'' ''Patna'' (table patna_store)))
       < 86400 * 1000000 \<and>
   no_remote_data (Inl ConnectionError) \<and>
   get_district_data_via (Inl ConnectionError) Missing 91000000000 ''Bihar'' ''Patna'' patna_store =
     Inr ((CacheFrame [patna_may], Cache, Some 1000), \<lparr> table = [patna_may], api_calls = 1 \<rparr>)"
proof -
  have h1: "get_from_cache ''Bihar'' ''Patna'' (table patna_store) \<noteq> []"
    by (simp add: patna_rows)
  have h2: "\<not> 91000000000
      - strptime (latest_update (get_from_cache ''Bihar'' ''Patna'' (table patna_store)))
      < 86400 * 1000000"
    by (simp add: patna_rows patna_latest strptime_def)
  have h3: "no_remote_data (Inl ConnectionError)"
    by (simp add: no_remote_data_def)
  have w1: "patna_store\<lparr>api_calls := Suc (api_calls patna_store)\<rparr> =
      \<lparr> table = [patna_may], api_calls = 1 \<rparr>"
    by (simp add: patna_store_def)
  from stale_cache_is_returned [OF h1 h2 h3, of Missing] h1 h2 h3
  show ?thesis by (simp add: patna_rows patna_latest w1)
qed



text \<open>
  Claim C4. For every key: if the table holds no row for the key, the remote source fails or
  returns nothing, and \<^verbatim>\<open>load_offline_data\<close> yields no record, then \<^verbatim>\<open>get_district_data\<close>
  returns normally (the value is an \<open>Inr\<close>, no exception) with a frame that is empty in
  the sense of \<^verbatim>\<open>df.empty\<close>, the source \<^verbatim>\<open>"offline"\<close> and no timestamp.
\<close>

theorem nothing_anywhere_gives_empty:
  assumes "get_from_cache st d (table w) = []"
    and "no_remote_data body"
    and "load_offline_data file st (Some d) = Inr []"
  shows "get_district_data_via body file now st d w =
           Inr ((OfflineFrame [], Offline, None), w\<lparr>api_calls := Suc (api_calls w)\<rparr>) \<and>
         df_empty (OfflineFrame [])"
proof -
  from assms(1) have stale: "\<not> is_cache_valid now st d 86400 (table w)"
    by (simp add: is_cache_valid_read)
  from policy_without_remote_data [OF stale assms(2), of "file"] assms(1,3)
  show ?thesis by (simp add: get_cache_timestamp_read)
qed

theorem nothing_anywhere_gives_empty_witness:
  "get_from_cache ''Bihar'' ''Patna'' (table empty_store) = [] \<and>
   no_remote_data (Inr None) \<and>
   load_offline_data (Content [gaya_april]) ''Bihar'' (Some ''Patna'') = Inr [] \<and>
   get_district_data_via (Inr None) (Content [gaya_april]) 91000000000 ''Bihar'' ''Patna'' empty_store =
     Inr ((OfflineFrame [], Offline, None), \<lparr> table = [], api_calls = 1 \<rparr>)"
proof -
  have h1: "get_from_cache ''Bihar'' ''Patna'' (table empty_store) = []"
    by code_simp
  have h2: "no_remote_data (Inr None)"
    by (simp add: no_remote_data_def)
  have h3: "load_offline_data (Content [gaya_april]) ''Bihar'' (Some ''Patna'') = Inr []"
    by code_simp
  have w1: "empty_store\<lparr>api_calls := Suc (api_calls empty_store)\<rparr> =
      \<lparr> table = [], api_calls = 1 \<rparr>"
    by (simp add: empty_store_def)
  from nothing_anywhere_gives_empty [OF h1 h2 h3, of 91000000000] h1 h2 h3
  show ?thesis by (simp add: w1)
qed



text \<open>
  With the placeholder body of the repository, \<^verbatim>\<open>get_district_data\<close> never answers from the
  remote source.
\<close>

lemma get_district_data_never_api:
  "get_district_data file now st d w \<noteq> Inr ((fr, Api, ts), w')"
  by (simp add: get_district_data_def get_district_data_via_def fetch_from_api_via_def Let_def
           split: list.splits sum.splits)

section \<open>Derived metrics\<close>










text \<open>
  When the mean of \<^verbatim>\<open>households\<close> is zero the test \<^verbatim>\<open>result[0]\<close> fails and nothing is
  returned, although a row matches.
\<close>

lemma state_average_of_zero_households:
  "filter (for_state_month ''Bihar'' 2023 5) [patna_may_2023] = [patna_may_2023] \<and>
   get_state_average ''Bihar'' 2023 5 [patna_may_2023] = None"
  by code_simp

text \<open>
  Claim C8. When the total of the previous year is zero, the year-over-year percentage is not
  computed: \<open>yoy_change\<close> gives \<open>None\<close>, and so does the whole block on every frame whose
  totals have a previous total of zero. For a positive previous total it is
  (latest - previous) / previous * 100.
\<close>

theorem yoy_undefined_for_zero_previous:
  "yoy_change latest_total 0 = None \<and>
   (yoy_totals df = Some (latest_total, 0) \<longrightarrow> yoy_growth df = None) \<and>
   (0 < prev_total \<longrightarrow>
      yoy_change latest_total prev_total =
        Some (of_int (latest_total - prev_total) / of_int prev_total * 100))"
  by (simp add: yoy_change_def yoy_growth_def)

theorem yoy_undefined_for_zero_previous_witness:
  "yoy_totals [patna_may, patna_may_2023] = Some (3400, 0) \<and>
   yoy_growth [patna_may, patna_may_2023] = None \<and>
   (0::int) < 3400 \<and>
   yoy_change 3400 3400 = Some 0"
proof -
  have h1: "yoy_totals [patna_may, patna_may_2023] = Some (3400, 0)"
    by code_simp
  have h2: "(0::int) < 3400"
    by simp
  from yoy_undefined_for_zero_previous [of 3400 "[patna_may, patna_may_2023]" 3400] h1 h2
  show ?thesis by simp
qed

end
